theory Spec2Isabelle
  imports Complex_Main "HOL-Library.Sublist"
begin

section \<open>Python values\<close>

text \<open>
  A Python \<open>str\<close> is a sequence of Unicode code points; \<open>len\<close> and slicing count code
  points, not bytes. It is modelled as the list of its code points. \<open>S\<close> turns an ASCII
  literal into such a string.
\<close>

type_synonym pystr = "nat list"

definition S :: "string \<Rightarrow> pystr" where
  "S s = map of_char s"

text \<open>The number of bytes of a code point, and of a string, in UTF-8.\<close>

definition utf8_width :: "nat \<Rightarrow> nat" where
  "utf8_width c = (if c < 128 then 1 else if c < 2048 then 2 else if c < 65536 then 3 else 4)"

definition utf8_len :: "pystr \<Rightarrow> nat" where
  "utf8_len s = sum_list (map utf8_width s)"

text \<open>
  A Python \<open>float\<close>: a finite value (every double is a rational), the two infinities
  and NaN. Comparisons with integers are exact. Arithmetic on doubles rounds, and the
  rounding is not computed here: a product of doubles is taken from the platform (the
  parameter \<open>mul\<close> below, a field of the world in what follows).
\<close>

datatype pyfloat = Fin rat | PosInf | NegInf | NaN

text \<open>
  The numbers, that is the values with \<open>isinstance(v, (int, float))\<close>: \<open>bool\<close> is a
  subclass of \<open>int\<close> in Python, with \<open>True == 1\<close> and \<open>False == 0\<close>.
\<close>

datatype pynum = NBool bool | NInt int | NFloat pyfloat

text \<open>What \<open>json.loads\<close> can return: \<open>None\<close>, numbers, strings, lists and dicts.\<close>

datatype pyval =
    PNone
  | PNum pynum
  | PStr pystr
  | PList "pyval list"
  | PDict "(pystr \<times> pyval) list"

type_synonym pydict = "(pystr \<times> pyval) list"

datatype exn = TypeError | KeyError | AttributeError | Exception pystr

text \<open>\<open>timeout <= 0\<close> and \<open>timeout > k\<close> for a number: every comparison with NaN is false.\<close>

fun num_le :: "pynum \<Rightarrow> int \<Rightarrow> bool" where
  "num_le (NBool b) k = ((if b then 1 else 0) \<le> k)"
| "num_le (NInt i) k = (i \<le> k)"
| "num_le (NFloat (Fin r)) k = (r \<le> of_int k)"
| "num_le (NFloat PosInf) k = False"
| "num_le (NFloat NegInf) k = True"
| "num_le (NFloat NaN) k = False"

fun num_gt :: "pynum \<Rightarrow> int \<Rightarrow> bool" where
  "num_gt (NBool b) k = ((if b then 1 else 0) > k)"
| "num_gt (NInt i) k = (i > k)"
| "num_gt (NFloat (Fin r)) k = (r > of_int k)"
| "num_gt (NFloat PosInf) k = True"
| "num_gt (NFloat NegInf) k = False"
| "num_gt (NFloat NaN) k = False"

text \<open>
  \<open>timeout * 1000\<close>: exact on a bool and an int; on a float it is the double product
  \<open>mul f\<close>.
\<close>

fun num_times_1000 :: "(pyfloat \<Rightarrow> pyfloat) \<Rightarrow> pynum \<Rightarrow> pynum" where
  "num_times_1000 mul (NBool b) = NInt (if b then 1000 else 0)"
| "num_times_1000 mul (NInt i) = NInt (i * 1000)"
| "num_times_1000 mul (NFloat f) = NFloat (mul f)"

text \<open>\<open>str\<close> of an integer: its decimal digits, with a minus sign when negative.\<close>

fun str_nat :: "nat \<Rightarrow> pystr" where
  "str_nat n = (if n < 10 then [48 + n] else str_nat (n div 10) @ [48 + n mod 10])"

definition str_int :: "int \<Rightarrow> pystr" where
  "str_int i = (if i < 0 then 45 # str_nat (nat (- i)) else str_nat (nat i))"

text \<open>
  \<open>str\<close> of a number, as an f-string renders it. The rendering of a float (Python's
  shortest round-trip representation) is library code: it is the parameter \<open>fr\<close>.
\<close>

fun str_num :: "(pyfloat \<Rightarrow> pystr) \<Rightarrow> pynum \<Rightarrow> pystr" where
  "str_num fr (NBool b) = (if b then S ''True'' else S ''False'')"
| "str_num fr (NInt i) = str_int i"
| "str_num fr (NFloat f) = fr f"

text \<open>
  \<open>str\<close> of a hashable value. Lists and dicts are never rendered: the membership test on
  the language raises \<open>TypeError\<close> for them before the message is built.
\<close>

fun str_hashable :: "(pyfloat \<Rightarrow> pystr) \<Rightarrow> pyval \<Rightarrow> pystr" where
  "str_hashable fr PNone = S ''None''"
| "str_hashable fr (PNum n) = str_num fr n"
| "str_hashable fr (PStr s) = s"
| "str_hashable fr (PList xs) = []"
| "str_hashable fr (PDict kvs) = []"

text \<open>\<open>len(v)\<close>: defined on strings, lists and dicts, a \<open>TypeError\<close> otherwise.\<close>

fun py_len :: "pyval \<Rightarrow> exn + nat" where
  "py_len (PStr s) = Inr (length s)"
| "py_len (PList xs) = Inr (length xs)"
| "py_len (PDict kvs) = Inr (length (remdups (map fst kvs)))"
| "py_len PNone = Inl TypeError"
| "py_len (PNum n) = Inl TypeError"

section \<open>Configuration\<close>

definition MAX_EXECUTION_TIME :: int where
  "MAX_EXECUTION_TIME = 10"

definition MAX_MEMORY_MB :: int where
  "MAX_MEMORY_MB = 256"

definition MAX_PIDS :: int where
  "MAX_PIDS = 50"

definition MAX_CODE_SIZE :: nat where
  "MAX_CODE_SIZE = 10 * 1024"

definition WORKER_ID :: pystr where
  "WORKER_ID = S ''worker-001''"

definition LANGUAGE_IMAGES :: "(pystr \<times> pystr) list" where
  "LANGUAGE_IMAGES =
     [(S ''python'', S ''python:3.11-alpine''),
      (S ''javascript'', S ''node:20-alpine''),
      (S ''ruby'', S ''ruby:3.2-alpine''),
      (S ''go'', S ''golang:1.21-alpine'')]"

text \<open>\<open>str(list(LANGUAGE_IMAGES.keys()))\<close>: the keys in quotes, separated by commas.\<close>

fun join_repr :: "pystr list \<Rightarrow> pystr" where
  "join_repr [] = []"
| "join_repr [k] = [39] @ k @ [39]"
| "join_repr (k # ks) = [39] @ k @ [39] @ S '', '' @ join_repr ks"

definition supported_languages :: pystr where
  "supported_languages = S ''['' @ join_repr (map fst LANGUAGE_IMAGES) @ S '']''"

section \<open>Input validation\<close>

text \<open>
  \<open>validate_job\<close> returns the pair \<open>(is_valid, error_message)\<close>, or raises. The checks are
  in the order of the source: the three required fields in turn, the language whitelist (the
  membership test hashes the value, so a list or a dict raises), the code size (through
  \<open>len\<close>, which raises on a value without a length), the timeout.
\<close>

fun language_supported :: "pyval \<Rightarrow> exn + bool" where
  "language_supported (PList xs) = Inl TypeError"
| "language_supported (PDict kvs) = Inl TypeError"
| "language_supported (PStr s) = Inr (map_of LANGUAGE_IMAGES s \<noteq> None)"
| "language_supported PNone = Inr False"
| "language_supported (PNum n) = Inr False"

text \<open>\<open>job.get('timeout', MAX_EXECUTION_TIME)\<close>.\<close>

definition job_timeout :: "pydict \<Rightarrow> pyval" where
  "job_timeout job =
     (case map_of job (S ''timeout'') of None \<Rightarrow> PNum (NInt MAX_EXECUTION_TIME) | Some t \<Rightarrow> t)"

text \<open>
  The timeout test of the source, negated: the value is an int or a float, it is not
  \<open><= 0\<close> and it is not \<open>> MAX_EXECUTION_TIME\<close>.
\<close>

fun timeout_ok :: "pyval \<Rightarrow> bool" where
  "timeout_ok (PNum n) = (\<not> (num_le n 0 \<or> num_gt n MAX_EXECUTION_TIME))"
| "timeout_ok v = False"

definition timeout_message :: pystr where
  "timeout_message = S ''Invalid timeout. Must be 1-'' @ str_int MAX_EXECUTION_TIME @ S '' seconds''"

definition validate_job :: "(pyfloat \<Rightarrow> pystr) \<Rightarrow> pydict \<Rightarrow> exn + (bool \<times> pystr option)" where
  "validate_job fr job =
     (case map_of job (S ''job_id'') of
        None \<Rightarrow> Inr (False, Some (S ''Missing required field: '' @ S ''job_id''))
      | Some jid \<Rightarrow>
     (case map_of job (S ''language'') of
        None \<Rightarrow> Inr (False, Some (S ''Missing required field: '' @ S ''language''))
      | Some lang \<Rightarrow>
     (case map_of job (S ''code'') of
        None \<Rightarrow> Inr (False, Some (S ''Missing required field: '' @ S ''code''))
      | Some code \<Rightarrow>
     (case language_supported lang of
        Inl e \<Rightarrow> Inl e
      | Inr False \<Rightarrow>
          Inr (False, Some (S ''Unsupported language: '' @ str_hashable fr lang
                 @ S ''. Supported: '' @ supported_languages))
      | Inr True \<Rightarrow>
     (case py_len code of
        Inl e \<Rightarrow> Inl e
      | Inr n \<Rightarrow>
          if n > MAX_CODE_SIZE then
            Inr (False, Some (S ''Code exceeds size limit of ''
                   @ str_int (int MAX_CODE_SIZE) @ S '' bytes''))
          else if \<not> timeout_ok (job_timeout job) then
            Inr (False, Some timeout_message)
          else Inr (True, None))))))"

section \<open>The world outside the worker\<close>

text \<open>
  The process reads a wall clock, runs \<open>docker\<close> through \<open>subprocess.run\<close>, writes to a
  DynamoDB table, receives from and deletes from an SQS queue, sleeps, and is told to shut
  down by a signal. Each of these is a field of the state \<open>world\<close>, which every
  operation takes and returns. What a service answers is not decided by the worker: the
  answer to the n-th call of a service is given by a function of n (for
  \<open>subprocess.run\<close>, by a function of its arguments), and the world counts the calls.
\<close>

datatype status = SUCCESS | ERROR | TIMEOUT

text \<open>The dict that \<open>execute_code\<close> returns; \<open>output_str\<close> is its key \<open>output\<close>.\<close>

record outcome =
  status :: status
  output_str :: pystr
  error :: pystr
  execution_time_ms :: pynum
  exit_code :: int

text \<open>
  The item that \<open>write_result\<close> puts: the five fields of the outcome, and five more.
  \<open>timestamp\<close> holds the clock reading whose \<open>isoformat()\<close> the source stores (the
  rendering determines the reading and is determined by it); \<open>ttl\<close> is in seconds since
  the epoch.
\<close>

record item = outcome +
  job_id :: pyval
  language :: pyval
  worker_id :: pystr
  timestamp :: int
  ttl :: int

text \<open>
  What \<open>subprocess.run\<close> does: the process ends in time with a return code and the
  captured stdout and stderr (as text), or the timeout expires, or the call raises another
  exception with some message.
\<close>

datatype run_result = Completed int pystr pystr | TimeoutExpired | Raised pystr

text \<open>\<open>table.put_item\<close> and \<open>sqs.delete_message\<close> return, raise \<open>ClientError\<close>, or raise another exception.\<close>

datatype call_result = Ok | ClientError | Raises exn

text \<open>
  An SQS message: its receipt handle, and what \<open>json.loads\<close> makes of its body (a value,
  or \<open>JSONDecodeError\<close>).
\<close>

datatype body = Malformed | Json pyval

record message =
  ReceiptHandle :: pystr
  Body :: body

text \<open>\<open>sqs.receive_message\<close> returns a response with its list of messages, or raises.\<close>

datatype receive_result = Messages "message list" | ReceiveClientError | ReceiveRaises exn

record world =
  clock :: "nat \<Rightarrow> int"
  clock_reads :: nat
  elapsed_ms :: "int \<Rightarrow> int \<Rightarrow> int"
  times_1000 :: "pyfloat \<Rightarrow> pyfloat"
  utcoffset :: "int \<Rightarrow> int"
  subprocess_run :: "pyval list \<Rightarrow> pyval option \<Rightarrow> pynum \<Rightarrow> run_result"
  run_log :: "(pyval list \<times> pyval option \<times> pynum) list"
  put_item :: "nat \<Rightarrow> call_result"
  put_calls :: nat
  table :: "pyval \<Rightarrow> item option"
  sqs_delete :: "nat \<Rightarrow> call_result"
  delete_calls :: "pystr list"
  deleted :: "pystr list"
  receive_message :: "nat \<Rightarrow> receive_result"
  receive_calls :: nat
  shutdown_event :: "nat \<Rightarrow> bool"
  shutdown_checks :: nat
  slept :: "nat list"

text \<open>
  \<open>clock w n\<close> is the n-th reading of the wall clock, in microseconds since the epoch;
  \<open>time.time()\<close> and \<open>datetime.utcnow()\<close> both read it. Three fields are the platform's
  arithmetic, which the model does not compute: \<open>elapsed_ms w start_time t\<close> is the value
  of \<open>int((t - start_time) * 1000)\<close> in double arithmetic for the readings \<open>start_time\<close>
  and \<open>t\<close> of \<open>time.time()\<close>; \<open>times_1000 w f\<close> is the double \<open>f * 1000\<close>;
  \<open>utcoffset w t\<close> is the offset from UTC, in microseconds, that the worker's time zone
  has at the local time \<open>t\<close> (\<open>.timestamp()\<close> reads a naive datetime as local time).
  \<open>run_log\<close> lists the calls of
  \<open>subprocess.run\<close> (arguments, stdin, timeout). \<open>table\<close> is the DynamoDB table, keyed by
  \<open>job_id\<close>. \<open>delete_calls\<close> lists the receipt handles \<open>delete_message\<close> was called with,
  \<open>deleted\<close> those that SQS removed. \<open>slept\<close> lists the arguments of \<open>time.sleep\<close>, in
  seconds. \<open>shutdown_event w n\<close> is what the n-th \<open>shutdown_event.is_set()\<close> returns.
\<close>

definition read_clock :: "world \<Rightarrow> int \<times> world" where
  "read_clock w = (clock w (clock_reads w), w\<lparr>clock_reads := Suc (clock_reads w)\<rparr>)"

definition sleep :: "nat \<Rightarrow> world \<Rightarrow> world" where
  "sleep n w = w\<lparr>slept := slept w @ [n]\<rparr>"

definition is_set :: "world \<Rightarrow> bool \<times> world" where
  "is_set w = (shutdown_event w (shutdown_checks w), w\<lparr>shutdown_checks := Suc (shutdown_checks w)\<rparr>)"

text \<open>Python's \<open>int(x)\<close> of a quotient: the quotient rounded towards zero.\<close>

definition trunc_div :: "int \<Rightarrow> int \<Rightarrow> int" where
  "trunc_div a b = (if a < 0 then - ((- a) div b) else a div b)"

section \<open>Sandboxed execution\<close>

definition exec_commands :: "pyval \<Rightarrow> (pystr \<times> pyval list) list" where
  "exec_commands code =
     [(S ''python'', [PStr (S ''python''), PStr (S ''-c''), code]),
      (S ''javascript'', [PStr (S ''node''), PStr (S ''-e''), code]),
      (S ''ruby'', [PStr (S ''ruby''), PStr (S ''-e''), code]),
      (S ''go'', [PStr (S ''go''), PStr (S ''run''), PStr (S ''/dev/stdin'')])]"

definition docker_cmd :: "pystr \<Rightarrow> pyval list \<Rightarrow> pyval list" where
  "docker_cmd img cmd =
     map PStr
       [S ''docker'', S ''run'',
        S ''--rm'',
        S ''--interactive'',
        S ''--network'', S ''none'',
        S ''--cpus'', S ''0.5'',
        S ''--memory'', str_int MAX_MEMORY_MB @ S ''m'',
        S ''--pids-limit'', str_int MAX_PIDS,
        S ''--read-only'',
        S ''--cap-drop'', S ''ALL'',
        S ''--security-opt'', S ''no-new-privileges'',
        img]
     @ butlast cmd"

text \<open>
  \<open>execute_code\<close> reads the clock, looks the image and the command up (both lookups are
  outside the \<open>try\<close>: a language that is not a key raises \<open>KeyError\<close> to the caller), and
  calls \<open>subprocess.run\<close> inside the \<open>try\<close>. Every command of \<open>exec_commands\<close> has three
  elements, so \<open>butlast\<close> and \<open>last\<close> are the slices \<open>[:-1]\<close> and \<open>[-1]\<close>.
\<close>

definition execute_code ::
  "(pyfloat \<Rightarrow> pystr) \<Rightarrow> pystr \<Rightarrow> pyval \<Rightarrow> pynum \<Rightarrow> world \<Rightarrow> (exn + outcome) \<times> world" where
  "execute_code fr lang code timeout w =
     (let (start_time, w1) = read_clock w in
      case map_of LANGUAGE_IMAGES lang of
        None \<Rightarrow> (Inl KeyError, w1)
      | Some img \<Rightarrow>
     (case map_of (exec_commands code) lang of
        None \<Rightarrow> (Inl KeyError, w1)
      | Some cmd \<Rightarrow>
          let stdin_input = (if lang = S ''go'' then Some code else None);
              argv = docker_cmd img cmd @ [last cmd];
              w2 = w1\<lparr>run_log := run_log w1 @ [(argv, stdin_input, timeout)]\<rparr>
          in
          (case subprocess_run w2 argv stdin_input timeout of
             Completed returncode stdout stderr \<Rightarrow>
               let (t, w3) = read_clock w2 in
               (Inr \<lparr>status = (if returncode = 0 then SUCCESS else ERROR),
                     output_str = take 4000 stdout,
                     error = take 4000 stderr,
                     execution_time_ms = NInt (elapsed_ms w start_time t),
                     exit_code = returncode\<rparr>, w3)
           | TimeoutExpired \<Rightarrow>
               (Inr \<lparr>status = TIMEOUT,
                     output_str = [],
                     error = S ''Execution exceeded time limit of '' @ str_num fr timeout @ S ''s'',
                     execution_time_ms = num_times_1000 (times_1000 w) timeout,
                     exit_code = - 1\<rparr>, w2)
           | Raised e \<Rightarrow>
               let (t, w3) = read_clock w2 in
               (Inr \<lparr>status = ERROR,
                     output_str = [],
                     error = S ''Internal execution error: '' @ e,
                     execution_time_ms = NInt (elapsed_ms w start_time t),
                     exit_code = - 1\<rparr>, w3))))"

section \<open>Writing the result\<close>

definition max_retries :: nat where
  "max_retries = 3"

text \<open>
  The retry loop \<open>for attempt in range(max_retries)\<close>: a put that returns ends the loop
  with \<open>True\<close>; a \<open>ClientError\<close> sleeps \<open>2 ** attempt\<close> seconds and goes on when
  \<open>attempt < max_retries - 1\<close>, and returns \<open>False\<close> otherwise; any other exception is
  not caught.
\<close>

function put_attempts :: "item \<Rightarrow> nat \<Rightarrow> world \<Rightarrow> (exn + bool) \<times> world" where
  "put_attempts it attempt w =
     (if attempt < max_retries then
        (let w1 = w\<lparr>put_calls := Suc (put_calls w)\<rparr> in
         case put_item w (put_calls w) of
           Ok \<Rightarrow> (Inr True, w1\<lparr>table := (table w1)(job_id it \<mapsto> it)\<rparr>)
         | ClientError \<Rightarrow>
             if attempt < max_retries - 1
             then put_attempts it (Suc attempt) (sleep (2 ^ attempt) w1)
             else (Inr False, w1)
         | Raises e \<Rightarrow> (Inl e, w1))
      else (Inr False, w))"
  by pat_completeness auto
termination
  by (relation "measure (\<lambda>(it, attempt, w). max_retries - attempt)") auto

declare put_attempts.simps [simp del]

text \<open>\<open>job_metadata.get('language', 'unknown')\<close>.\<close>

definition metadata_language :: "pydict \<Rightarrow> pyval" where
  "metadata_language job_metadata =
     (case map_of job_metadata (S ''language'') of None \<Rightarrow> PStr (S ''unknown'') | Some l \<Rightarrow> l)"

text \<open>
  \<open>int((datetime.utcnow() + timedelta(days=7)).timestamp())\<close>, for the reading \<open>now\<close> of
  \<open>utcnow()\<close>: the naive datetime seven days later is read as local time, and the seconds
  since the epoch are cut to a whole number.
\<close>

definition expiry :: "(int \<Rightarrow> int) \<Rightarrow> int \<Rightarrow> int" where
  "expiry offset now =
     (let t = now + 7 * 86400 * 1000000 in trunc_div (t - offset t) 1000000)"

text \<open>
  The item of \<open>write_result\<close>, from the two clock readings: \<open>now1\<close> for \<open>timestamp\<close>,
  \<open>now2\<close> for \<open>ttl\<close>.
\<close>

definition make_item ::
  "(int \<Rightarrow> int) \<Rightarrow> pyval \<Rightarrow> outcome \<Rightarrow> pydict \<Rightarrow> int \<Rightarrow> int \<Rightarrow> item" where
  "make_item offset jid result job_metadata now1 now2 =
     \<lparr>status = status result,
      output_str = output_str result,
      error = error result,
      execution_time_ms = execution_time_ms result,
      exit_code = exit_code result,
      job_id = jid,
      language = metadata_language job_metadata,
      worker_id = WORKER_ID,
      timestamp = now1,
      ttl = expiry offset now2\<rparr>"

text \<open>\<open>write_result\<close> builds the item, reading the clock twice, and runs the retry loop.\<close>

definition write_result :: "pyval \<Rightarrow> outcome \<Rightarrow> pydict \<Rightarrow> world \<Rightarrow> (exn + bool) \<times> world" where
  "write_result jid result job_metadata w =
     (let (now1, w1) = read_clock w;
          (now2, w2) = read_clock w1
      in put_attempts (make_item (utcoffset w) jid result job_metadata now1 now2) 0 w2)"

section \<open>Processing one message\<close>

text \<open>
  \<open>delete_message\<close> catches \<open>ClientError\<close> (the message stays in the queue) and lets any
  other exception through.
\<close>

definition delete_message :: "pystr \<Rightarrow> world \<Rightarrow> (exn + unit) \<times> world" where
  "delete_message receipt_handle w =
     (let w1 = w\<lparr>delete_calls := delete_calls w @ [receipt_handle]\<rparr> in
      case sqs_delete w (length (delete_calls w)) of
        Ok \<Rightarrow> (Inr (), w1\<lparr>deleted := deleted w1 @ [receipt_handle]\<rparr>)
      | ClientError \<Rightarrow> (Inr (), w1)
      | Raises e \<Rightarrow> (Inl e, w1))"

text \<open>\<open>job.get('job_id', 'unknown')\<close>.\<close>

definition job_id_of :: "pydict \<Rightarrow> pyval" where
  "job_id_of job = (case map_of job (S ''job_id'') of None \<Rightarrow> PStr (S ''unknown'') | Some j \<Rightarrow> j)"

text \<open>
  The arguments that \<open>process_message\<close> passes to \<open>execute_code\<close>: \<open>job['language']\<close>,
  \<open>job['code']\<close> and \<open>job.get('timeout', MAX_EXECUTION_TIME)\<close>. They are read after
  \<open>validate_job\<close> has accepted the job, when the language is a string and the timeout a
  number (lemma \<open>validate_job_accepts_args\<close> below), which is what \<open>execute_code\<close> takes.
\<close>

definition execute_args :: "pydict \<Rightarrow> (pystr \<times> pyval \<times> pynum) option" where
  "execute_args job =
     (case (map_of job (S ''language''), map_of job (S ''code''), job_timeout job) of
        (Some (PStr lang), Some code, PNum timeout) \<Rightarrow> Some (lang, code, timeout)
      | _ \<Rightarrow> None)"

text \<open>The f-string \<open>{error_msg}\<close>.\<close>

definition str_message :: "pystr option \<Rightarrow> pystr" where
  "str_message error_msg = (case error_msg of None \<Rightarrow> S ''None'' | Some m \<Rightarrow> m)"

text \<open>
  Inside the \<open>try\<close> of \<open>process_message\<close> every exception is caught and logged, and the
  function returns without deleting the message.
\<close>

definition caught :: "(exn + 'a) \<times> world \<Rightarrow> (exn + unit) \<times> world" where
  "caught r = (Inr (), snd r)"

text \<open>
  \<open>process_message\<close>. A body that does not decode is deleted, in the handler of
  \<open>JSONDecodeError\<close>, outside the \<open>try\<close>: an exception of \<open>delete_message\<close> there reaches
  the caller. A decoded body that is not a dict has no \<open>get\<close>: \<open>AttributeError\<close>, caught.
  The value that \<open>write_result\<close> returns is not looked at.
\<close>

definition process_message :: "(pyfloat \<Rightarrow> pystr) \<Rightarrow> message \<Rightarrow> world \<Rightarrow> (exn + unit) \<times> world" where
  "process_message fr msg w =
     (let receipt_handle = ReceiptHandle msg in
      case Body msg of
        Malformed \<Rightarrow> delete_message receipt_handle w
      | Json (PDict job) \<Rightarrow>
          (let jid = job_id_of job in
           case validate_job fr job of
             Inl e \<Rightarrow> (Inr (), w)
           | Inr (False, error_msg) \<Rightarrow>
               (let result = \<lparr>status = ERROR,
                              output_str = [],
                              error = S ''Validation error: '' @ str_message error_msg,
                              execution_time_ms = NInt 0,
                              exit_code = - 1\<rparr> in
                case write_result jid result job w of
                  (Inl e, w1) \<Rightarrow> (Inr (), w1)
                | (Inr written, w1) \<Rightarrow> caught (delete_message receipt_handle w1))
           | Inr (True, error_msg) \<Rightarrow>
               (case execute_args job of
                  None \<Rightarrow> (Inr (), w)
                | Some (lang, code, timeout) \<Rightarrow>
                   (case execute_code fr lang code timeout w of
                      (Inl e, w1) \<Rightarrow> (Inr (), w1)
                    | (Inr result, w1) \<Rightarrow>
                       (case write_result jid result job w1 of
                          (Inl e, w2) \<Rightarrow> (Inr (), w2)
                        | (Inr written, w2) \<Rightarrow> caught (delete_message receipt_handle w2)))))
      | Json v \<Rightarrow> (Inr (), w))"

section \<open>The polling loop\<close>

definition max_consecutive_errors :: nat where
  "max_consecutive_errors = 5"

text \<open>
  The \<open>for\<close> loop over the received messages: it stops when the shutdown flag is set, and
  an exception of \<open>process_message\<close> leaves it.
\<close>

fun process_messages :: "(pyfloat \<Rightarrow> pystr) \<Rightarrow> message list \<Rightarrow> world \<Rightarrow> (exn + unit) \<times> world" where
  "process_messages fr [] w = (Inr (), w)"
| "process_messages fr (m # ms) w =
     (let (stop, w1) = is_set w in
      if stop then (Inr (), w1)
      else case process_message fr m w1 of
             (Inl e, w2) \<Rightarrow> (Inl e, w2)
           | (Inr u, w2) \<Rightarrow> process_messages fr ms w2)"

datatype control = Continue | Break

text \<open>
  The two \<open>except\<close> blocks of the loop have the same body: count the error, leave the
  loop at the threshold, sleep five seconds otherwise.
\<close>

definition on_error :: "nat \<Rightarrow> world \<Rightarrow> control \<times> nat \<times> world" where
  "on_error consecutive_errors w =
     (let n = consecutive_errors + 1 in
      if n \<ge> max_consecutive_errors then (Break, n, w) else (Continue, n, sleep 5 w))"

text \<open>
  One pass through the body of \<open>while not shutdown_event.is_set()\<close>, from the value of
  \<open>consecutive_errors\<close> before it to the value after it.
\<close>

definition poll_cycle :: "(pyfloat \<Rightarrow> pystr) \<Rightarrow> nat \<Rightarrow> world \<Rightarrow> control \<times> nat \<times> world" where
  "poll_cycle fr consecutive_errors w =
     (let w1 = w\<lparr>receive_calls := Suc (receive_calls w)\<rparr> in
      case receive_message w (receive_calls w) of
        ReceiveClientError \<Rightarrow> on_error consecutive_errors w1
      | ReceiveRaises e \<Rightarrow> on_error consecutive_errors w1
      | Messages messages \<Rightarrow>
          if messages \<noteq> [] then
            (case process_messages fr messages w1 of
               (Inl e, w2) \<Rightarrow> on_error consecutive_errors w2
             | (Inr u, w2) \<Rightarrow> (Continue, 0, w2))
          else (Continue, consecutive_errors, w1))"

text \<open>
  \<open>poll_queue\<close> runs until the shutdown flag is set or the loop is left; nothing bounds
  the number of its passes. \<open>poll_loop\<close> runs at most \<open>fuel\<close> passes: \<open>None\<close> says that
  the loop is still running after them, \<open>Some\<close> that it has ended, with the control that
  ended it (\<open>Continue\<close> for the shutdown flag, \<open>Break\<close> for the error threshold) and the
  last value of \<open>consecutive_errors\<close>.
\<close>

fun poll_loop :: "(pyfloat \<Rightarrow> pystr) \<Rightarrow> nat \<Rightarrow> nat \<Rightarrow> world \<Rightarrow> (control \<times> nat) option \<times> world" where
  "poll_loop fr 0 consecutive_errors w = (None, w)"
| "poll_loop fr (Suc fuel) consecutive_errors w =
     (let (stop, w1) = is_set w in
      if stop then (Some (Continue, consecutive_errors), w1)
      else case poll_cycle fr consecutive_errors w1 of
             (Break, n, w2) \<Rightarrow> (Some (Break, n), w2)
           | (Continue, n, w2) \<Rightarrow> poll_loop fr fuel n w2)"

definition poll_queue :: "(pyfloat \<Rightarrow> pystr) \<Rightarrow> nat \<Rightarrow> world \<Rightarrow> (control \<times> nat) option \<times> world" where
  "poll_queue fr fuel w = poll_loop fr fuel 0 w"

section \<open>Concrete inputs\<close>

text \<open>A rendering of floats for the concrete inputs, none of which renders one.\<close>

definition fr0 :: "pyfloat \<Rightarrow> pystr" where
  "fr0 f = []"


definition job_ten :: pydict where
  "job_ten =
     [(S ''job_id'', PStr (S ''j1'')), (S ''language'', PStr (S ''python'')),
      (S ''code'', PStr (S ''print(1)'')), (S ''timeout'', PNum (NInt 10))]"

text \<open>
  A world in which every service answers: the clock advances one second per reading, the
  sandboxed process prints a line and exits with 0, puts and deletes succeed, the queue is
  empty, no shutdown is requested. Its readings are whole seconds apart, where the double
  arithmetic of \<open>elapsed_ms\<close> is exact; the worker's time zone is UTC.
\<close>

definition world0 :: world where
  "world0 =
     \<lparr>clock = (\<lambda>n. 1700000000000000 + int n * 1000000),
      clock_reads = 0,
      elapsed_ms = (\<lambda>start_time t. trunc_div (t - start_time) 1000),
      times_1000 = (\<lambda>f. case f of Fin r \<Rightarrow> Fin (r * 1000) | PosInf \<Rightarrow> PosInf | NegInf \<Rightarrow> NegInf | NaN \<Rightarrow> NaN),
      utcoffset = (\<lambda>t. 0),
      subprocess_run = (\<lambda>argv stdin_input timeout. Completed 0 (S ''1'' @ [10]) []),
      run_log = [],
      put_item = (\<lambda>n. Ok),
      put_calls = 0,
      table = (\<lambda>k. None),
      sqs_delete = (\<lambda>n. Ok),
      delete_calls = [],
      deleted = [],
      receive_message = (\<lambda>n. Messages []),
      receive_calls = 0,
      shutdown_event = (\<lambda>n. False),
      shutdown_checks = 0,
      slept = []\<rparr>"

text \<open>A sandboxed process that prints 5000 times the letter e with an acute accent (U+00E9).\<close>

definition accents_world :: world where
  "accents_world = world0\<lparr>subprocess_run := (\<lambda>argv stdin_input timeout. Completed 0 (replicate 5000 233) [])\<rparr>"

text \<open>A table that refuses every put, and one that refuses the first put only.\<close>

definition store_down :: world where
  "store_down = world0\<lparr>put_item := (\<lambda>n. ClientError)\<rparr>"

definition store_flaky :: world where
  "store_flaky = world0\<lparr>put_item := (\<lambda>n. if n = 0 then ClientError else Ok)\<rparr>"

text \<open>
  A table that refuses the first two puts and whose third put raises an exception that is
  not a \<open>ClientError\<close>.
\<close>

definition store_lost :: world where
  "store_lost =
     world0\<lparr>put_item := (\<lambda>n. if n < 2 then ClientError else Raises (Exception (S ''connection lost'')))\<rparr>"

text \<open>An outcome, and a message that carries \<open>job_ten\<close>.\<close>

definition result_ok :: outcome where
  "result_ok = \<lparr>status = SUCCESS, output_str = S ''1'' @ [10], error = [],
                 execution_time_ms = NInt 1000, exit_code = 0\<rparr>"

definition msg_ten :: message where
  "msg_ten = \<lparr>ReceiptHandle = S ''rh1'', Body = Json (PDict job_ten)\<rparr>"

text \<open>A job without the key \<open>timeout\<close>, and a job whose code is a number.\<close>

definition job_no_timeout :: pydict where
  "job_no_timeout =
     [(S ''job_id'', PStr (S ''j2'')), (S ''language'', PStr (S ''go'')),
      (S ''code'', PStr (S ''package main''))]"

definition job_code_number :: pydict where
  "job_code_number =
     [(S ''job_id'', PStr (S ''j3'')), (S ''language'', PStr (S ''python'')),
      (S ''code'', PNum (NInt 42)), (S ''timeout'', PNum (NInt 5))]"

text \<open>A queue whose every other receive fails, the ones between returning no message.\<close>

definition queue_flaky :: world where
  "queue_flaky = world0\<lparr>receive_message := (\<lambda>n. if even n then ReceiveClientError else Messages [])\<rparr>"

section \<open>Properties of the validation\<close>


lemma validate_job_timeout_stage:
  assumes "map_of job (S ''job_id'') = Some j"
    and "map_of job (S ''language'') = Some (PStr l)"
    and "map_of LANGUAGE_IMAGES l = Some img"
    and "map_of job (S ''code'') = Some c"
    and "py_len c = Inr n"
    and "n \<le> MAX_CODE_SIZE"
  shows "validate_job fr job =
           (if timeout_ok (job_timeout job) then Inr (True, None)
            else Inr (False, Some timeout_message))"
  using assms by (simp add: validate_job_def)






section \<open>Properties of the sandboxed execution\<close>

lemma whitelist_cases:
  assumes "map_of LANGUAGE_IMAGES lang = Some img"
  shows "lang = S ''python'' \<or> lang = S ''javascript'' \<or> lang = S ''ruby'' \<or> lang = S ''go''"
  using assms by (simp add: LANGUAGE_IMAGES_def split: if_splits)

lemma exec_commands_lookup:
  assumes "map_of LANGUAGE_IMAGES lang = Some img"
  shows "\<exists>a b c. map_of (exec_commands code) lang = Some [a, b, c]"
  using whitelist_cases [OF assms] by (auto simp: exec_commands_def S_def)

text \<open>
  Claim C2. For a language of the whitelist (the only ones that reach \<open>execute_code\<close>:
  \<open>validate_job\<close> is the gate), \<open>execute_code\<close> returns an outcome, never an exception,
  after one call of \<open>subprocess.run\<close> with the timeout it was given. If the process ends
  within the timeout, the status is SUCCESS for the exit code 0 and ERROR for any other,
  the error field carries stderr (its first 4000 characters) and the exit code is the
  process's. If the timeout expires, the status is TIMEOUT, the error is the message
  stating the limit and the exit code is -1. If the call raises anything else, the status
  is ERROR, the error is the internal-error message and the exit code is -1.
\<close>

theorem execute_code_classification:
  assumes "map_of LANGUAGE_IMAGES lang = Some img"
  shows "\<exists>argv stdin_input result w'.
           execute_code fr lang code timeout w = (Inr result, w')
           \<and> run_log w' = run_log w @ [(argv, stdin_input, timeout)]
           \<and> (case subprocess_run w argv stdin_input timeout of
                 Completed returncode stdout stderr \<Rightarrow>
                   status result = (if returncode = 0 then SUCCESS else ERROR)
                   \<and> error result = take 4000 stderr
                   \<and> exit_code result = returncode
               | TimeoutExpired \<Rightarrow>
                   status result = TIMEOUT
                   \<and> error result = S ''Execution exceeded time limit of '' @ str_num fr timeout @ S ''s''
                   \<and> exit_code result = - 1
               | Raised e \<Rightarrow>
                   status result = ERROR
                   \<and> error result = S ''Internal execution error: '' @ e
                   \<and> exit_code result = - 1)"
proof -
  from exec_commands_lookup [OF assms]
  obtain a b c where cmd: "map_of (exec_commands code) lang = Some [a, b, c]"
    by blast
  show ?thesis
    apply (rule exI [of _ "docker_cmd img [a, b, c] @ [c]"])
    apply (rule exI [of _ "if lang = S ''go'' then Some code else None"])
    apply (simp add: execute_code_def assms cmd read_clock_def Let_def split: run_result.splits)
    done
qed

text \<open>The whitelist holds \<open>python\<close>; in \<open>world0\<close> the run succeeds.\<close>

theorem execute_code_classification_witness:
  "map_of LANGUAGE_IMAGES (S ''python'') = Some (S ''python:3.11-alpine'')
   \<and> (\<exists>result w'. execute_code fr0 (S ''python'') (PStr (S ''print(1)'')) (NInt 5) world0 = (Inr result, w')
         \<and> status result = SUCCESS \<and> exit_code result = 0)"
proof -
  have h: "map_of LANGUAGE_IMAGES (S ''python'') = Some (S ''python:3.11-alpine'')"
    by (simp add: LANGUAGE_IMAGES_def S_def)
  from execute_code_classification [OF h, of fr0 "PStr (S ''print(1)'')" "NInt 5" world0]
  have "\<exists>result w'. execute_code fr0 (S ''python'') (PStr (S ''print(1)'')) (NInt 5) world0 = (Inr result, w')
         \<and> status result = SUCCESS \<and> exit_code result = 0"
    by (auto simp: world0_def)
  with h show ?thesis by simp
qed

text \<open>
  A language that is not on the whitelist never starts a sandbox: the lookup of its image
  raises \<open>KeyError\<close> before the \<open>try\<close>.
\<close>

lemma execute_code_unsupported:
  assumes "map_of LANGUAGE_IMAGES lang = None"
  shows "fst (execute_code fr lang code timeout w) = Inl KeyError"
  using assms by (simp add: execute_code_def read_clock_def)

text \<open>
  Claim C7, as amended. For a language of the whitelist, \<open>execute_code\<close> never raises.
  When the process ends within the timeout, the output and error fields are the first
  4000 characters (code points) of the captured stdout and stderr: a prefix, of at most
  4000 characters. The bound is in characters, not in bytes. When the timeout expires or
  the call raises, the output is empty (and the error is the synthetic message of claim C2,
  not a prefix of stderr).
\<close>

theorem execute_code_truncation:
  assumes "map_of LANGUAGE_IMAGES lang = Some img"
  shows "\<exists>argv stdin_input result w'.
           execute_code fr lang code timeout w = (Inr result, w')
           \<and> run_log w' = run_log w @ [(argv, stdin_input, timeout)]
           \<and> (case subprocess_run w argv stdin_input timeout of
                 Completed returncode stdout stderr \<Rightarrow>
                   output_str result = take 4000 stdout \<and> error result = take 4000 stderr
                   \<and> prefix (output_str result) stdout \<and> prefix (error result) stderr
                   \<and> length (output_str result) \<le> 4000 \<and> length (error result) \<le> 4000
               | TimeoutExpired \<Rightarrow> output_str result = []
               | Raised e \<Rightarrow> output_str result = [])"
proof -
  from exec_commands_lookup [OF assms]
  obtain a b c where cmd: "map_of (exec_commands code) lang = Some [a, b, c]"
    by blast
  show ?thesis
    apply (rule exI [of _ "docker_cmd img [a, b, c] @ [c]"])
    apply (rule exI [of _ "if lang = S ''go'' then Some code else None"])
    apply (simp add: execute_code_def assms cmd read_clock_def Let_def take_is_prefix
        split: run_result.splits)
    done
qed

text \<open>Of 5000 characters the first 4000 are kept.\<close>

theorem execute_code_truncation_witness:
  "map_of LANGUAGE_IMAGES (S ''python'') = Some (S ''python:3.11-alpine'')
   \<and> (\<exists>result w'. execute_code fr0 (S ''python'') (PStr (S ''print(1)'')) (NInt 5) accents_world = (Inr result, w')
         \<and> output_str result = replicate 4000 233 \<and> length (output_str result) = 4000)"
proof -
  have h: "map_of LANGUAGE_IMAGES (S ''python'') = Some (S ''python:3.11-alpine'')"
    by (simp add: LANGUAGE_IMAGES_def S_def)
  from execute_code_truncation [OF h, of fr0 "PStr (S ''print(1)'')" "NInt 5" accents_world]
  have "\<exists>result w'. execute_code fr0 (S ''python'') (PStr (S ''print(1)'')) (NInt 5) accents_world = (Inr result, w')
         \<and> output_str result = replicate 4000 233 \<and> length (output_str result) = 4000"
    by (auto simp: accents_world_def world0_def)
  with h show ?thesis by simp
qed

text \<open>
  Claim C7 as stated fails: the 4000 characters kept of an output of two-byte characters
  are 8000 bytes of UTF-8.
\<close>

theorem execute_code_bytes_counterexample:
  "fst (execute_code fr0 (S ''python'') (PStr (S ''print(1)'')) (NInt 5) accents_world) =
     Inr \<lparr>status = SUCCESS, output_str = replicate 4000 233, error = [],
          execution_time_ms = NInt 1000, exit_code = 0\<rparr>
   \<and> utf8_len (replicate 4000 233) = 8000
   \<and> \<not> (utf8_len (replicate 4000 233) \<le> 4000)"
  by (simp add: execute_code_def accents_world_def world0_def LANGUAGE_IMAGES_def S_def
      exec_commands_def read_clock_def trunc_div_def utf8_len_def utf8_width_def
      sum_list_replicate)

section \<open>Properties of the result writer\<close>

text \<open>The retry loop, written out: it has at most three passes.\<close>

lemma put_attempts_unroll:
  "put_attempts it 0 w =
     (let w1 = w\<lparr>put_calls := Suc (put_calls w)\<rparr> in
      case put_item w (put_calls w) of
        Ok \<Rightarrow> (Inr True, w1\<lparr>table := (table w1)(job_id it \<mapsto> it)\<rparr>)
      | Raises e \<Rightarrow> (Inl e, w1)
      | ClientError \<Rightarrow>
         (let w2 = sleep 1 w1; w3 = w2\<lparr>put_calls := Suc (put_calls w2)\<rparr> in
          case put_item w (Suc (put_calls w)) of
            Ok \<Rightarrow> (Inr True, w3\<lparr>table := (table w3)(job_id it \<mapsto> it)\<rparr>)
          | Raises e \<Rightarrow> (Inl e, w3)
          | ClientError \<Rightarrow>
             (let w4 = sleep 2 w3; w5 = w4\<lparr>put_calls := Suc (put_calls w4)\<rparr> in
              case put_item w (Suc (Suc (put_calls w))) of
                Ok \<Rightarrow> (Inr True, w5\<lparr>table := (table w5)(job_id it \<mapsto> it)\<rparr>)
              | Raises e \<Rightarrow> (Inl e, w5)
              | ClientError \<Rightarrow> (Inr False, w5))))"
  by (simp add: put_attempts.simps [of it 0] put_attempts.simps [of it "Suc 0"]
        put_attempts.simps [of it "Suc (Suc 0)"] max_retries_def sleep_def Let_def
        split: call_result.splits)

lemma write_result_unroll:
  "write_result jid result job w =
     put_attempts (make_item (utcoffset w) jid result job (clock w (clock_reads w))
                     (clock w (Suc (clock_reads w)))) 0
       (w\<lparr>clock_reads := Suc (Suc (clock_reads w))\<rparr>)"
  by (simp add: write_result_def read_clock_def)

lemma job_id_make_item [simp]: "job_id (make_item offset jid result job now1 now2) = jid"
  by (simp add: make_item_def)

text \<open>
  Claim C5, as amended. A call of \<open>write_result\<close> makes at most three puts and returns
  \<open>True\<close> at the first that succeeds. Between two consecutive attempts, the first of which
  failed with \<open>ClientError\<close>, it sleeps \<open>2 ** attempt\<close> seconds: one second after the first
  failure, two after the second; nothing follows the third attempt. When the three puts
  fail with \<open>ClientError\<close> it returns \<open>False\<close>, the table unchanged, without raising. An
  exception of \<open>put_item\<close> that is not a \<open>ClientError\<close> is not caught: at whichever attempt
  it occurs, the call ends there and raises it, the table unchanged; and the call raises
  in no other case.
\<close>

theorem write_result_retries:
  "(let n = put_calls w;
        r = fst (write_result jid result job w);
        w' = snd (write_result jid result job w)
    in put_calls w' \<le> n + 3
     \<and> (slept w' = slept w \<or> slept w' = slept w @ [1] \<or> slept w' = slept w @ [1, 2])
     \<and> (put_item w n = Ok \<longrightarrow>
          r = Inr True \<and> put_calls w' = n + 1 \<and> slept w' = slept w)
     \<and> (\<forall>e. put_item w n = Raises e \<longrightarrow>
          r = Inl e \<and> put_calls w' = n + 1 \<and> slept w' = slept w \<and> table w' = table w)
     \<and> (put_item w n = ClientError \<and> put_item w (n + 1) = Ok \<longrightarrow>
          r = Inr True \<and> put_calls w' = n + 2 \<and> slept w' = slept w @ [1])
     \<and> (\<forall>e. put_item w n = ClientError \<and> put_item w (n + 1) = Raises e \<longrightarrow>
          r = Inl e \<and> put_calls w' = n + 2 \<and> slept w' = slept w @ [1] \<and> table w' = table w)
     \<and> (put_item w n = ClientError \<and> put_item w (n + 1) = ClientError \<and> put_item w (n + 2) = Ok \<longrightarrow>
          r = Inr True \<and> put_calls w' = n + 3 \<and> slept w' = slept w @ [1, 2])
     \<and> (\<forall>e. put_item w n = ClientError \<and> put_item w (n + 1) = ClientError
              \<and> put_item w (n + 2) = Raises e \<longrightarrow>
          r = Inl e \<and> put_calls w' = n + 3 \<and> slept w' = slept w @ [1, 2] \<and> table w' = table w)
     \<and> (put_item w n = ClientError \<and> put_item w (n + 1) = ClientError
          \<and> put_item w (n + 2) = ClientError \<longrightarrow>
          r = Inr False \<and> put_calls w' = n + 3 \<and> slept w' = slept w @ [1, 2] \<and> table w' = table w)
     \<and> (\<forall>e. r = Inl e \<longrightarrow>
          put_item w n = Raises e \<or> put_item w (n + 1) = Raises e \<or> put_item w (n + 2) = Raises e))"
  by (cases "put_item w (put_calls w)"; cases "put_item w (Suc (put_calls w))";
      cases "put_item w (Suc (Suc (put_calls w)))")
     (simp_all add: write_result_unroll put_attempts_unroll sleep_def Let_def)

text \<open>A first put that fails and a second that succeeds: one sleep, of one second.\<close>

theorem write_result_retries_witness:
  "put_item store_flaky (put_calls store_flaky) = ClientError
   \<and> put_item store_flaky (put_calls store_flaky + 1) = Ok
   \<and> fst (write_result (PStr (S ''j1'')) result_ok job_ten store_flaky) = Inr True
   \<and> put_calls (snd (write_result (PStr (S ''j1'')) result_ok job_ten store_flaky)) = 2
   \<and> slept (snd (write_result (PStr (S ''j1'')) result_ok job_ten store_flaky)) = [1]"
proof -
  have h: "put_item store_flaky (put_calls store_flaky) = ClientError
           \<and> put_item store_flaky (put_calls store_flaky + 1) = Ok"
    and z: "put_calls store_flaky = 0" "slept store_flaky = []"
    by (simp_all add: store_flaky_def world0_def)
  from write_result_retries [of store_flaky "PStr (S ''j1'')" result_ok job_ten] h
  have "fst (write_result (PStr (S ''j1'')) result_ok job_ten store_flaky) = Inr True
   \<and> put_calls (snd (write_result (PStr (S ''j1'')) result_ok job_ten store_flaky)) = 2
   \<and> slept (snd (write_result (PStr (S ''j1'')) result_ok job_ten store_flaky)) = [1]"
    by (simp add: Let_def z)
  with h show ?thesis by simp
qed

text \<open>
  Claim C5 as stated fails: in \<open>store_lost\<close> the three attempts fail, the third with an
  exception that is not a \<open>ClientError\<close>, and \<open>write_result\<close> raises it instead of
  returning \<open>False\<close>. Its sleeps were of one and two seconds.
\<close>

theorem write_result_raises_counterexample:
  "put_item store_lost 0 = ClientError
   \<and> put_item store_lost 1 = ClientError
   \<and> put_item store_lost 2 = Raises (Exception (S ''connection lost''))
   \<and> put_calls (snd (write_result (PStr (S ''j1'')) result_ok job_ten store_lost)) = 3
   \<and> slept (snd (write_result (PStr (S ''j1'')) result_ok job_ten store_lost)) = [1, 2]
   \<and> fst (write_result (PStr (S ''j1'')) result_ok job_ten store_lost)
       = Inl (Exception (S ''connection lost''))
   \<and> fst (write_result (PStr (S ''j1'')) result_ok job_ten store_lost) \<noteq> Inr False"
  by (simp add: write_result_unroll put_attempts_unroll sleep_def Let_def store_lost_def world0_def)

text \<open>What a successful \<open>write_result\<close> leaves in the table.\<close>

lemma write_result_stored:
  assumes "write_result jid result job w = (Inr True, w1)"
  shows "table w1 = (table w)(jid \<mapsto> make_item (utcoffset w) jid result job (clock w (clock_reads w))
                                         (clock w (Suc (clock_reads w))))
         \<and> clock w1 = clock w \<and> clock_reads w1 = Suc (Suc (clock_reads w))
         \<and> utcoffset w1 = utcoffset w"
  using assms
  by (cases "put_item w (put_calls w)"; cases "put_item w (Suc (put_calls w))";
      cases "put_item w (Suc (Suc (put_calls w)))")
     (auto simp: write_result_unroll put_attempts_unroll sleep_def Let_def)

text \<open>
  Claim C6, as amended. A successful \<open>write_result\<close> replaces the whole record under
  \<open>job_id\<close> and touches no other key. After two successful writes of the same outcome for
  the same \<open>job_id\<close>, the table is the table before them with the record of the second
  write under \<open>job_id\<close> (the last write wins); that record equals the record of the first
  write in every field except \<open>timestamp\<close> and \<open>ttl\<close>, which each write takes from the
  clock. The table after the second write equals the table after the first exactly when
  the second write stamped the same \<open>timestamp\<close> and the same \<open>ttl\<close> as the first.
\<close>

theorem write_result_twice:
  assumes "write_result jid result job w = (Inr True, w1)"
    and "write_result jid result job w1 = (Inr True, w2)"
  shows "(let c = clock_reads w;
              it1 = make_item (utcoffset w) jid result job (clock w c) (clock w (c + 1));
              it2 = make_item (utcoffset w) jid result job (clock w (c + 2)) (clock w (c + 3))
          in table w1 = (table w)(jid \<mapsto> it1)
           \<and> table w2 = (table w)(jid \<mapsto> it2)
           \<and> it2 = it1\<lparr>timestamp := timestamp it2, ttl := ttl it2\<rparr>
           \<and> (table w2 = table w1) = (timestamp it2 = timestamp it1 \<and> ttl it2 = ttl it1))"
proof -
  define it1 where "it1 = make_item (utcoffset w) jid result job (clock w (clock_reads w))
                            (clock w (Suc (clock_reads w)))"
  define it2 where "it2 = make_item (utcoffset w) jid result job (clock w (Suc (Suc (clock_reads w))))
                            (clock w (Suc (Suc (Suc (clock_reads w)))))"
  from write_result_stored [OF assms(1)]
  have t1: "table w1 = (table w)(jid \<mapsto> it1)"
    and c1: "clock w1 = clock w" and r1: "clock_reads w1 = Suc (Suc (clock_reads w))"
    and o1: "utcoffset w1 = utcoffset w"
    by (simp_all add: it1_def)
  from write_result_stored [OF assms(2)]
  have t2: "table w2 = (table w)(jid \<mapsto> it2)"
    by (simp add: t1 c1 r1 o1 it2_def)
  have same: "it2 = it1\<lparr>timestamp := timestamp it2, ttl := ttl it2\<rparr>"
    by (simp add: it1_def it2_def make_item_def)
  have "(table w2 = table w1) = (it2 = it1)"
    unfolding t1 t2 by (auto dest: map_upd_eqD1)
  also have "\<dots> = (timestamp it2 = timestamp it1 \<and> ttl it2 = ttl it1)"
    by (auto simp: it1_def it2_def make_item_def)
  finally have eq: "(table w2 = table w1) = (timestamp it2 = timestamp it1 \<and> ttl it2 = ttl it1)" .
  have s1: "clock_reads w + 1 = Suc (clock_reads w)"
    and s2: "clock_reads w + 2 = Suc (Suc (clock_reads w))"
    and s3: "clock_reads w + 3 = Suc (Suc (Suc (clock_reads w)))"
    by simp_all
  show ?thesis
    unfolding Let_def s1 s2 s3 it1_def [symmetric] it2_def [symmetric]
    using t1 t2 same eq by blast
qed

text \<open>Two writes in \<open>world0\<close>, where the clock advances: the tables differ.\<close>

theorem write_result_twice_witness:
  "write_result (PStr (S ''j1'')) result_ok job_ten world0
     = (Inr True, snd (write_result (PStr (S ''j1'')) result_ok job_ten world0))
   \<and> write_result (PStr (S ''j1'')) result_ok job_ten (snd (write_result (PStr (S ''j1'')) result_ok job_ten world0))
     = (Inr True, snd (write_result (PStr (S ''j1'')) result_ok job_ten
                        (snd (write_result (PStr (S ''j1'')) result_ok job_ten world0))))
   \<and> table (snd (write_result (PStr (S ''j1'')) result_ok job_ten
                 (snd (write_result (PStr (S ''j1'')) result_ok job_ten world0))))
     \<noteq> table (snd (write_result (PStr (S ''j1'')) result_ok job_ten world0))"
proof -
  have h1: "write_result (PStr (S ''j1'')) result_ok job_ten world0
     = (Inr True, snd (write_result (PStr (S ''j1'')) result_ok job_ten world0))"
    by (simp add: write_result_unroll put_attempts_unroll Let_def world0_def)
  have h2: "write_result (PStr (S ''j1'')) result_ok job_ten (snd (write_result (PStr (S ''j1'')) result_ok job_ten world0))
     = (Inr True, snd (write_result (PStr (S ''j1'')) result_ok job_ten
                        (snd (write_result (PStr (S ''j1'')) result_ok job_ten world0))))"
    by (simp add: write_result_unroll put_attempts_unroll Let_def world0_def)
  have d: "timestamp (make_item (utcoffset world0) (PStr (S ''j1'')) result_ok job_ten
                        (clock world0 (clock_reads world0 + 2)) (clock world0 (clock_reads world0 + 3)))
           \<noteq> timestamp (make_item (utcoffset world0) (PStr (S ''j1'')) result_ok job_ten
                        (clock world0 (clock_reads world0)) (clock world0 (clock_reads world0 + 1)))"
    by (simp add: make_item_def world0_def)
  from write_result_twice [OF h1 h2, unfolded Let_def] d
  have "table (snd (write_result (PStr (S ''j1'')) result_ok job_ten
                 (snd (write_result (PStr (S ''j1'')) result_ok job_ten world0))))
     \<noteq> table (snd (write_result (PStr (S ''j1'')) result_ok job_ten world0))"
    by blast
  with h1 h2 show ?thesis by simp
qed

text \<open>
  Claim C6 as stated fails: two writes of the same outcome two seconds apart leave records
  with different timestamps.
\<close>

theorem write_result_twice_timestamp_counterexample:
  "map_option timestamp (table (snd (write_result (PStr (S ''j1'')) result_ok job_ten world0)) (PStr (S ''j1'')))
     = Some 1700000000000000
   \<and> map_option timestamp
       (table (snd (write_result (PStr (S ''j1'')) result_ok job_ten
                 (snd (write_result (PStr (S ''j1'')) result_ok job_ten world0)))) (PStr (S ''j1'')))
     = Some 1700000002000000
   \<and> table (snd (write_result (PStr (S ''j1'')) result_ok job_ten
                 (snd (write_result (PStr (S ''j1'')) result_ok job_ten world0)))) (PStr (S ''j1''))
     \<noteq> table (snd (write_result (PStr (S ''j1'')) result_ok job_ten world0)) (PStr (S ''j1''))"
  by (simp add: write_result_unroll put_attempts_unroll Let_def world0_def make_item_def)

section \<open>Properties of the message pipeline\<close>

text \<open>
  A job that \<open>validate_job\<close> accepts has a whitelisted string as language, a code and a
  number as timeout: \<open>execute_args\<close> is defined on it.
\<close>

lemma validate_job_accepts_args:
  assumes "validate_job fr job = Inr (True, e)"
  shows "\<exists>lang code timeout img.
           execute_args job = Some (lang, code, timeout) \<and> map_of LANGUAGE_IMAGES lang = Some img"
proof -
  from assms obtain lang code
    where l: "map_of job (S ''language'') = Some lang" and c: "map_of job (S ''code'') = Some code"
      and s: "language_supported lang = Inr True" and t: "timeout_ok (job_timeout job)"
    by (auto simp: validate_job_def split: option.splits sum.splits bool.splits if_splits)
  from s obtain name img where n: "lang = PStr name" "map_of LANGUAGE_IMAGES name = Some img"
    by (cases lang) auto
  from t obtain timeout where "job_timeout job = PNum timeout"
    by (cases "job_timeout job") auto
  with l c n show ?thesis
    by (simp add: execute_args_def)
qed

lemma execute_code_returns:
  assumes "map_of LANGUAGE_IMAGES lang = Some img"
  shows "\<exists>cmd result w'.
           map_of (exec_commands code) lang = Some cmd
           \<and> execute_code fr lang code timeout w = (Inr result, w')
           \<and> run_log w' = run_log w @ [(docker_cmd img cmd @ [last cmd],
                                         if lang = S ''go'' then Some code else None, timeout)]"
proof -
  from exec_commands_lookup [OF assms]
  obtain a b c where cmd: "map_of (exec_commands code) lang = Some [a, b, c]"
    by blast
  show ?thesis
    apply (rule exI [of _ "[a, b, c]"])
    apply (simp add: execute_code_def assms cmd read_clock_def Let_def split: run_result.splits)
    done
qed

lemma write_result_run_log: "run_log (snd (write_result jid result job w)) = run_log w"
  by (cases "put_item w (put_calls w)"; cases "put_item w (Suc (put_calls w))";
      cases "put_item w (Suc (Suc (put_calls w)))")
     (simp_all add: write_result_unroll put_attempts_unroll sleep_def Let_def)

lemma delete_message_run_log: "run_log (snd (delete_message rh w)) = run_log w"
  by (simp add: delete_message_def Let_def split: call_result.splits)

text \<open>
  Claim C9. A job without the key \<open>timeout\<close>, which passes the checks before the timeout
  (fields present, language on the whitelist, code within the size limit), gets the
  default \<open>MAX_EXECUTION_TIME = 10\<close> and is accepted by \<open>validate_job\<close>, and
  \<open>process_message\<close> executes it with the limit 10: it makes exactly one call of
  \<open>subprocess.run\<close>, whose command is the docker command for the image of the job's
  language followed by that language's command for the job's code, whose stdin is the
  job's code for \<open>go\<close> and nothing otherwise, and whose timeout is 10.
\<close>

theorem omitted_timeout_runs_with_maximum:
  assumes "map_of job (S ''timeout'') = None"
    and "map_of job (S ''job_id'') = Some j"
    and "map_of job (S ''language'') = Some (PStr l)"
    and "map_of LANGUAGE_IMAGES l = Some img"
    and "map_of job (S ''code'') = Some c"
    and "py_len c = Inr n"
    and "n \<le> MAX_CODE_SIZE"
  shows "job_timeout job = PNum (NInt 10)
         \<and> validate_job fr job = Inr (True, None)
         \<and> (\<exists>cmd. map_of (exec_commands c) l = Some cmd
               \<and> run_log (snd (process_message fr \<lparr>ReceiptHandle = rh, Body = Json (PDict job)\<rparr> w))
                   = run_log w @ [(docker_cmd img cmd @ [last cmd],
                                   if l = S ''go'' then Some c else None, NInt 10)])"
proof -
  have t: "job_timeout job = PNum (NInt 10)"
    using assms(1) by (simp add: job_timeout_def MAX_EXECUTION_TIME_def)
  have v: "validate_job fr job = Inr (True, None)"
    using validate_job_timeout_stage [OF assms(2-7), of fr] by (simp add: t MAX_EXECUTION_TIME_def)
  have a: "execute_args job = Some (l, c, NInt 10)"
    using assms(3,5) by (simp add: execute_args_def t)
  from execute_code_returns [OF assms(4), of c fr "NInt 10" w]
  obtain cmd result w1
    where k: "map_of (exec_commands c) l = Some cmd"
      and x: "execute_code fr l c (NInt 10) w = (Inr result, w1)"
      and r: "run_log w1 = run_log w @ [(docker_cmd img cmd @ [last cmd],
                                         if l = S ''go'' then Some c else None, NInt 10)]"
    by blast
  have "run_log (snd (process_message fr \<lparr>ReceiptHandle = rh, Body = Json (PDict job)\<rparr> w))
          = run_log w @ [(docker_cmd img cmd @ [last cmd],
                          if l = S ''go'' then Some c else None, NInt 10)]"
  proof (cases "write_result (job_id_of job) result job w1")
    case (Pair b w2)
    have "run_log w2 = run_log w1"
      using write_result_run_log [of "job_id_of job" result job w1] Pair by simp
    then show ?thesis
      by (cases b) (simp_all add: process_message_def v a x Pair r caught_def delete_message_run_log)
  qed
  with t v k show ?thesis by blast
qed

text \<open>
  A job for \<open>go\<close> without timeout, in \<open>world0\<close>: the one run is \<open>go run /dev/stdin\<close> in the
  image of \<open>go\<close>, with the job's code on stdin and the timeout 10.
\<close>

theorem omitted_timeout_runs_with_maximum_witness:
  "map_of job_no_timeout (S ''timeout'') = None
   \<and> map_of job_no_timeout (S ''job_id'') = Some (PStr (S ''j2''))
   \<and> map_of job_no_timeout (S ''language'') = Some (PStr (S ''go''))
   \<and> map_of LANGUAGE_IMAGES (S ''go'') = Some (S ''golang:1.21-alpine'')
   \<and> map_of job_no_timeout (S ''code'') = Some (PStr (S ''package main''))
   \<and> py_len (PStr (S ''package main'')) = Inr 12
   \<and> 12 \<le> MAX_CODE_SIZE
   \<and> validate_job fr0 job_no_timeout = Inr (True, None)
   \<and> run_log (snd (process_message fr0 \<lparr>ReceiptHandle = S ''rh2'', Body = Json (PDict job_no_timeout)\<rparr> world0))
      = [(docker_cmd (S ''golang:1.21-alpine'') [PStr (S ''go''), PStr (S ''run''), PStr (S ''/dev/stdin'')]
            @ [PStr (S ''/dev/stdin'')],
          Some (PStr (S ''package main'')), NInt 10)]"
proof -
  have h1: "map_of job_no_timeout (S ''timeout'') = None"
    and h2: "map_of job_no_timeout (S ''job_id'') = Some (PStr (S ''j2''))"
    and h3: "map_of job_no_timeout (S ''language'') = Some (PStr (S ''go''))"
    and h5: "map_of job_no_timeout (S ''code'') = Some (PStr (S ''package main''))"
    by (simp_all add: job_no_timeout_def S_def)
  have h4: "map_of LANGUAGE_IMAGES (S ''go'') = Some (S ''golang:1.21-alpine'')"
    by (simp add: LANGUAGE_IMAGES_def S_def)
  have h6: "py_len (PStr (S ''package main'')) = Inr 12"
    by (simp add: S_def)
  have h7: "12 \<le> MAX_CODE_SIZE"
    by (simp add: MAX_CODE_SIZE_def)
  have e: "run_log world0 = []"
    by (simp add: world0_def)
  have k: "map_of (exec_commands (PStr (S ''package main''))) (S ''go'')
             = Some [PStr (S ''go''), PStr (S ''run''), PStr (S ''/dev/stdin'')]"
    by (simp add: exec_commands_def S_def)
  from omitted_timeout_runs_with_maximum [OF h1 h2 h3 h4 h5 h6 h7, of fr0 "S ''rh2''" world0]
  have "validate_job fr0 job_no_timeout = Inr (True, None)
   \<and> run_log (snd (process_message fr0 \<lparr>ReceiptHandle = S ''rh2'', Body = Json (PDict job_no_timeout)\<rparr> world0))
      = [(docker_cmd (S ''golang:1.21-alpine'') [PStr (S ''go''), PStr (S ''run''), PStr (S ''/dev/stdin'')]
            @ [PStr (S ''/dev/stdin'')],
          Some (PStr (S ''package main'')), NInt 10)]"
    by (auto simp: e k)
  with h1 h2 h3 h4 h5 h6 h7 show ?thesis by simp
qed

text \<open>
  Claim C10. For a decoded message whose job has its three required fields and a
  whitelisted language, and whose code is a value without a length (a number, a boolean or
  \<open>None\<close>), \<open>validate_job\<close> raises \<open>TypeError\<close> instead of returning a failure, and
  \<open>process_message\<close> catches it and returns with the world as it was: no record is put and
  \<open>delete_message\<close> is not called, so the message stays in the queue for redelivery.
\<close>

theorem code_without_length_is_redelivered:
  assumes "map_of job (S ''job_id'') = Some j"
    and "map_of job (S ''language'') = Some (PStr l)"
    and "map_of LANGUAGE_IMAGES l = Some img"
    and "map_of job (S ''code'') = Some c"
    and "c = PNone \<or> (\<exists>n. c = PNum n)"
  shows "validate_job fr job = Inl TypeError
         \<and> process_message fr \<lparr>ReceiptHandle = rh, Body = Json (PDict job)\<rparr> w = (Inr (), w)"
proof -
  from assms(5) have "py_len c = Inl TypeError"
    by auto
  with assms(1-4) have v: "validate_job fr job = Inl TypeError"
    by (simp add: validate_job_def)
  then show ?thesis
    by (simp add: process_message_def)
qed

text \<open>A job whose code is the number 42.\<close>

theorem code_without_length_is_redelivered_witness:
  "map_of job_code_number (S ''job_id'') = Some (PStr (S ''j3''))
   \<and> map_of job_code_number (S ''language'') = Some (PStr (S ''python''))
   \<and> map_of LANGUAGE_IMAGES (S ''python'') = Some (S ''python:3.11-alpine'')
   \<and> map_of job_code_number (S ''code'') = Some (PNum (NInt 42))
   \<and> validate_job fr0 job_code_number = Inl TypeError
   \<and> delete_calls (snd (process_message fr0 \<lparr>ReceiptHandle = S ''rh3'', Body = Json (PDict job_code_number)\<rparr> world0)) = []
   \<and> put_calls (snd (process_message fr0 \<lparr>ReceiptHandle = S ''rh3'', Body = Json (PDict job_code_number)\<rparr> world0)) = 0"
proof -
  have h1: "map_of job_code_number (S ''job_id'') = Some (PStr (S ''j3''))"
    and h2: "map_of job_code_number (S ''language'') = Some (PStr (S ''python''))"
    and h4: "map_of job_code_number (S ''code'') = Some (PNum (NInt 42))"
    by (simp_all add: job_code_number_def S_def)
  have h3: "map_of LANGUAGE_IMAGES (S ''python'') = Some (S ''python:3.11-alpine'')"
    by (simp add: LANGUAGE_IMAGES_def S_def)
  have h5: "PNum (NInt 42) = PNone \<or> (\<exists>n. PNum (NInt 42) = PNum n)"
    by simp
  from code_without_length_is_redelivered [OF h1 h2 h3 h4 h5, of fr0 "S ''rh3''" world0]
  have "validate_job fr0 job_code_number = Inl TypeError
   \<and> delete_calls (snd (process_message fr0 \<lparr>ReceiptHandle = S ''rh3'', Body = Json (PDict job_code_number)\<rparr> world0)) = []
   \<and> put_calls (snd (process_message fr0 \<lparr>ReceiptHandle = S ''rh3'', Body = Json (PDict job_code_number)\<rparr> world0)) = 0"
    by (simp add: world0_def)
  with h1 h2 h3 h4 show ?thesis by simp
qed

text \<open>
  For a valid job, \<open>process_message\<close> calls \<open>delete_message\<close> whenever \<open>write_result\<close>
  returns, whatever it returns.
\<close>

lemma process_message_ignores_written:
  assumes "validate_job fr job = Inr (True, e)"
    and "execute_args job = Some (l, c, t)"
    and "execute_code fr l c t w = (Inr result, w1)"
    and "write_result (job_id_of job) result job w1 = (Inr written, w2)"
  shows "delete_calls (snd (process_message fr \<lparr>ReceiptHandle = rh, Body = Json (PDict job)\<rparr> w))
           = delete_calls w2 @ [rh]"
  using assms
  by (simp add: process_message_def caught_def delete_message_def Let_def split: call_result.splits)

text \<open>
  Claim C1 is what the comment at the call says (\<open>only after successful processing\<close>),
  and the code does not do it. In \<open>store_down\<close> every put fails: for the valid job of
  \<open>msg_ten\<close> the sandbox run succeeds, \<open>write_result\<close> makes its three puts and returns
  \<open>False\<close>, no record is in the table, and \<open>process_message\<close> has called \<open>delete_message\<close>
  all the same: the message is removed from the queue.
\<close>

theorem process_message_deletes_after_failed_write:
  "validate_job fr0 job_ten = Inr (True, None)
   \<and> fst (execute_code fr0 (S ''python'') (PStr (S ''print(1)'')) (NInt 10) store_down) = Inr result_ok
   \<and> fst (write_result (PStr (S ''j1'')) result_ok job_ten
           (snd (execute_code fr0 (S ''python'') (PStr (S ''print(1)'')) (NInt 10) store_down))) = Inr False
   \<and> put_calls (snd (process_message fr0 msg_ten store_down)) = 3
   \<and> table (snd (process_message fr0 msg_ten store_down)) (PStr (S ''j1'')) = None
   \<and> delete_calls (snd (process_message fr0 msg_ten store_down)) = [S ''rh1'']
   \<and> deleted (snd (process_message fr0 msg_ten store_down)) = [S ''rh1'']"
  by (simp add: process_message_def msg_ten_def store_down_def world0_def job_ten_def result_ok_def
      validate_job_def S_def LANGUAGE_IMAGES_def MAX_CODE_SIZE_def job_timeout_def MAX_EXECUTION_TIME_def
      job_id_of_def execute_args_def execute_code_def read_clock_def exec_commands_def
      trunc_div_def
      write_result_def put_attempts_unroll sleep_def caught_def delete_message_def Let_def)

section \<open>Properties of the polling loop\<close>

text \<open>
  A failed pass counts the error, and leaves the loop at five or sleeps five seconds; a
  pass that processed its messages resets the count; a pass that received no message
  leaves the count as it is.
\<close>

lemma poll_cycle_failed:
  assumes "receive_message w (receive_calls w) = ReceiveClientError
           \<or> receive_message w (receive_calls w) = ReceiveRaises e"
  shows "poll_cycle fr n w =
           (if n + 1 \<ge> 5 then (Break, n + 1, w\<lparr>receive_calls := Suc (receive_calls w)\<rparr>)
            else (Continue, n + 1, sleep 5 (w\<lparr>receive_calls := Suc (receive_calls w)\<rparr>)))"
  using assms by (auto simp: poll_cycle_def on_error_def max_consecutive_errors_def Let_def)

lemma poll_cycle_empty:
  assumes "receive_message w (receive_calls w) = Messages []"
  shows "poll_cycle fr n w = (Continue, n, w\<lparr>receive_calls := Suc (receive_calls w)\<rparr>)"
  using assms by (simp add: poll_cycle_def)

lemma poll_cycle_processed:
  assumes "receive_message w (receive_calls w) = Messages ms" and "ms \<noteq> []"
    and "process_messages fr ms (w\<lparr>receive_calls := Suc (receive_calls w)\<rparr>) = (Inr u, w2)"
  shows "poll_cycle fr n w = (Continue, 0, w2)"
  using assms by (simp add: poll_cycle_def)

text \<open>
  Claim C3 asks that every successful poll reset the count of consecutive errors. The
  reset is inside \<open>if messages:\<close>, so a poll that succeeds with no message does not reset:
  after such a pass a count of 4 is still 4. In \<open>queue_flaky\<close> no two failures are
  consecutive, and the loop leaves at its ninth pass with the count at 5.
\<close>

theorem empty_poll_keeps_error_count:
  "receive_message world0 (receive_calls world0) = Messages []
   \<and> fst (snd (poll_cycle fr0 4 world0)) = 4
   \<and> map (receive_message queue_flaky) [0, 1, 2, 3, 4, 5, 6, 7, 8]
       = [ReceiveClientError, Messages [], ReceiveClientError, Messages [], ReceiveClientError,
          Messages [], ReceiveClientError, Messages [], ReceiveClientError]
   \<and> fst (poll_queue fr0 9 queue_flaky) = Some (Break, 5)
   \<and> receive_calls (snd (poll_queue fr0 9 queue_flaky)) = 9"
  by code_simp

end
